theory Spec2Isabelle
  imports Main
begin

section \<open>Python values and exceptions\<close>

text \<open>
  Every exception class that the two handlers raise, catch or let through is a
  constructor. \<open>OtherError\<close> stands for any exception class raised by a collaborator
  that no handler of the source names (a network error of the provider client, a
  database error of a DAO).
\<close>

datatype exn =
    IndexError
  | KeyError string
  | ExpiredSignatureError
  | JWTClaimsError
  | JWTError
  | FaildRetrieveAccessTokenError
  | NotVerifiedEmailError int string
  | HTTPException int string "(string \<times> string) list"
  | OtherError string

text \<open>
  In python-jose \<open>ExpiredSignatureError\<close> and \<open>JWTClaimsError\<close> are subclasses of
  \<open>JWTError\<close>, so \<open>except JWTError\<close> catches the three of them.
\<close>

definition isinstance_JWTError :: "exn \<Rightarrow> bool" where
  "isinstance_JWTError e = (e = JWTError \<or> e = JWTClaimsError \<or> e = ExpiredSignatureError)"

subsection \<open>Strings\<close>

text \<open>
  A header value reaches the handler decoded as latin-1, one character per byte, so a
  \<open>char\<close> is a code point below 256. \<open>str.isspace\<close> holds on these code points for
  TAB, LF, VT, FF, CR, the separators 0x1C to 0x1F, the space, NEL (0x85) and the
  no-break space (0xA0).
\<close>

definition py_isspace :: "char \<Rightarrow> bool" where
  "py_isspace c = (of_char c \<in> {9, 10, 11, 12, 13, 28, 29, 30, 31, 32, 133, 160 :: nat})"

definition not_space :: "char \<Rightarrow> bool" where
  "not_space c = (\<not> py_isspace c)"

text \<open>
  \<open>s.rsplit(maxsplit=1)\<close>: scanning from the right, the trailing whitespace is
  skipped, the last run of non-whitespace is the last item, the whitespace before it is
  skipped, and what remains of the string (from its first character on) is the first
  item when it is not empty. A string without a non-whitespace character gives the
  empty list.
\<close>

definition rsplit_maxsplit1 :: "string \<Rightarrow> string list" where
  "rsplit_maxsplit1 s =
     (let r = dropWhile py_isspace (rev s) in
      if r = [] then []
      else
        let tok = rev (takeWhile not_space r);
            rest = dropWhile py_isspace (dropWhile not_space r)
        in if rest = [] then [tok] else [rev rest, tok])"

text \<open>\<open>s.split(sep)\<close> for a separator of one character: never the empty list.\<close>

fun py_split :: "char \<Rightarrow> string \<Rightarrow> string list" where
  "py_split sep [] = [[]]"
| "py_split sep (c # cs) =
     (if c = sep then [] # py_split sep cs
      else (case py_split sep cs of
              [] \<Rightarrow> [[c]]
            | x # xs \<Rightarrow> (c # x) # xs))"

text \<open>\<open>xs[i]\<close>: a negative index counts from the end, an index out of range raises.\<close>

definition py_getitem :: "'a list \<Rightarrow> int \<Rightarrow> exn + 'a" where
  "py_getitem xs i =
     (let k = (if i < 0 then i + int (length xs) else i) in
      if k < 0 \<or> int (length xs) \<le> k then Inl IndexError
      else Inr (xs ! nat k))"

text \<open>\<open>d[k]\<close> on a dict.\<close>

definition dict_getitem :: "(string \<rightharpoonup> 'v) \<Rightarrow> string \<Rightarrow> exn + 'v" where
  "dict_getitem d k = (case d k of None \<Rightarrow> Inl (KeyError k) | Some v \<Rightarrow> Inr v)"

section \<open>Data model\<close>

record user =
  user_id :: int
  username :: string
  email :: string

text \<open>
  The profile that \<open>google.get_user_info\<close> returns, with the three keys the handler
  reads: \<open>user_info["email"]\<close>, \<open>user_info["verified_email"]\<close>, \<open>user_info["name"]\<close>.
  The provider client is not among the source files; as in the ProviderProfile of
  section 3 of the spec, a fetched profile carries all three, the email and the name
  as strings and the flag as a boolean. The email is any string.
\<close>

record user_info =
  info_email :: string
  info_verified_email :: bool
  info_name :: string

type_synonym payload = "string \<rightharpoonup> int"

type_synonym token_store = "(int \<times> string) list"

record db =
  users :: "user list"
  tokens :: token_store

record settings =
  google_client_id :: "string option"
  google_client_secret :: "string option"
  web_url :: string
  token_secret_key :: string
  token_algorithm :: string

subsection \<open>UserDAO\<close>

text \<open>
  Modelled from the spec: the class \<open>UserDAO\<close> (\<open>api.db.dao.user_dao\<close>) is not among
  the source files. Section 4.3 gives its contract: \<open>findById(id) -> User | none\<close>,
  \<open>findByEmail(email) -> User | none\<close>, and \<open>createUser(username, email) -> User.id\<close>,
  which fails when the email is already taken; section 3 makes the id unique and the
  email the case-sensitive lookup key, and says a user is never deleted. The table is
  a list in insertion order, a new id is one more than the largest id in the table.
\<close>

definition get_user :: "user list \<Rightarrow> int \<Rightarrow> user option" where
  "get_user us uid = find (\<lambda>u. user_id u = uid) us"

definition get_user_by_email :: "user list \<Rightarrow> string \<Rightarrow> user option" where
  "get_user_by_email us e = find (\<lambda>u. email u = e) us"

definition fresh_id :: "user list \<Rightarrow> int" where
  "fresh_id us = foldr (\<lambda>u m. max (user_id u) m) us 0 + 1"

definition create_user :: "user list \<Rightarrow> string \<Rightarrow> string \<Rightarrow> exn + (int \<times> user list)" where
  "create_user us name e =
     (if get_user_by_email us e \<noteq> None then Inl (OtherError ''DuplicateEmail'')
      else Inr (fresh_id us,
                us @ [\<lparr>user_id = fresh_id us, username = name, email = e\<rparr>]))"

section \<open>The bearer authenticator\<close>

text \<open>
  \<open>jwt.decode\<close> of python-jose is a parameter: given the token, the key and the list of
  algorithms it returns the payload or raises. \<open>UserModelDTO.model_validate(user)\<close>
  copies the fields of the row into the DTO; the DTO is the \<open>user\<close> record.
\<close>

type_synonym jwt_decode = "string \<Rightarrow> string \<Rightarrow> string list \<Rightarrow> exn + payload"

definition is_authenticated ::
  "settings \<Rightarrow> jwt_decode \<Rightarrow> user list \<Rightarrow> string option \<Rightarrow> exn + user" where
  \<open>is_authenticated st decode us authorization =
     (case authorization of
        None \<Rightarrow>
          Inl (HTTPException 400 ''Authorization header is missing.''
                 [(''WWW-Authenticate'', ''Bearer error="invalid_request"'')])
      | Some a \<Rightarrow>
          (case py_getitem (rsplit_maxsplit1 a) (- 1) of
             Inl e \<Rightarrow> Inl e
           | Inr jwt_token \<Rightarrow>
               (case decode jwt_token (token_secret_key st) [token_algorithm st] of
                  Inl e \<Rightarrow>
                    if e = ExpiredSignatureError then
                      Inl (HTTPException 401 ''Token has expired.''
                             [(''WWW-Authenticate'', ''Bearer error="invalid_token"'')])
                    else if isinstance_JWTError e then
                      Inl (HTTPException 401 ''Invalid token.''
                             [(''WWW-Authenticate'', ''Bearer error="invalid_token"'')])
                    else Inl e
                | Inr payload \<Rightarrow>
                    (case dict_getitem payload ''user_id'' of
                       Inl e \<Rightarrow> Inl e
                     | Inr uid \<Rightarrow>
                         (case get_user us uid of
                            Some u \<Rightarrow> Inr u
                          | None \<Rightarrow>
                              Inl (HTTPException 404 ''Not found user.''
                                     [(''WWW-Authenticate'',
                                       ''Bearer error="not_found_user"'')]))))))\<close>

subsection \<open>The last whitespace-delimited token\<close>

text \<open>
  The spec's reading of the extraction, written apart from the source: the header is
  cut at every run of whitespace, as \<open>s.split()\<close> does, and the credential is the last
  of the pieces. \<open>ws_tokens_from cur s\<close> reads \<open>s\<close> from the left with the piece \<open>cur\<close>
  under construction.
\<close>

fun ws_tokens_from :: "string \<Rightarrow> string \<Rightarrow> string list" where
  "ws_tokens_from cur [] = (if cur = [] then [] else [cur])"
| "ws_tokens_from cur (c # cs) =
     (if py_isspace c
      then (if cur = [] then ws_tokens_from [] cs else cur # ws_tokens_from [] cs)
      else ws_tokens_from (cur @ [c]) cs)"

definition ws_tokens :: "string \<Rightarrow> string list" where
  "ws_tokens s = ws_tokens_from [] s"

text \<open>
  The run of non-whitespace that ends the string once its trailing whitespace is
  removed: the item that \<open>rsplit_maxsplit1\<close> puts last.
\<close>

definition last_run :: "string \<Rightarrow> string" where
  "last_run s = rev (takeWhile not_space (dropWhile py_isspace (rev s)))"

section \<open>The Google login handlers\<close>

subsection \<open>Responses and recorded effects\<close>

text \<open>
  Modelled from the spec: \<open>json_err_content\<close> (\<open>api.utils.response\<close>) is not among the
  source files. Section 6 gives the error body as
  \<open>{status: int, error: string, message: string}\<close>; the three positional arguments of
  each call are the three fields in that order.
\<close>

record err_content =
  err_status :: int
  err_error :: string
  err_message :: string

definition json_err_content :: "int \<Rightarrow> string \<Rightarrow> string \<Rightarrow> err_content" where
  "json_err_content st err msg = \<lparr>err_status = st, err_error = err, err_message = msg\<rparr>"

text \<open>
  A URL is kept as its part before the \<open>?\<close> and the list of its query parameters:
  \<open>"{0}?{1}".format(base, urlencode(query))\<close> is \<open>\<lparr>url_base = base, url_query = query\<rparr>\<close>.
\<close>

record url =
  url_base :: string
  url_query :: "(string \<times> string) list"

datatype response =
    JSONResponse int err_content
  | RedirectResponse url

text \<open>
  What a handler does besides returning: the lines it logs and the DAO methods it
  calls, in order.
\<close>

datatype level = INFO | ERROR | CRITICAL

datatype event =
    Log level string
  | GetUserByEmail string
  | CreateUser string string
  | CreateToken int

text \<open>
  The collaborators of one request that are not among the source files, as parameters:
  \<open>request.url_for\<close>, the provider client \<open>google\<close> (\<open>get_token\<close>, \<open>get_user_info\<close>),
  \<open>TokenDAO.create_token\<close>, which returns the issued token and writes the token table
  only, and \<open>urllib.parse.urljoin\<close>. Each returns a value or raises.
\<close>

record env =
  url_for :: "string \<Rightarrow> string"
  get_token :: "string \<Rightarrow> string option \<Rightarrow> string option \<Rightarrow> string \<Rightarrow> exn + string"
  get_user_info :: "string \<Rightarrow> exn + user_info"
  create_token :: "token_store \<Rightarrow> int \<Rightarrow> exn + (string \<times> token_store)"
  urljoin :: "string \<Rightarrow> string \<Rightarrow> string"
  auth_endpoint :: string
  auth_params :: "(string \<times> string) list"

text \<open>
  Modelled from the spec: \<open>google.auth_url\<close> (\<open>api.services.oauth\<close>) is not among the
  source files. Section 4.2 makes \<open>buildAuthorizationUrl(clientId, redirectUri)\<close> a
  deterministic URL construction, and section 8 says the URL contains the redirectUri
  and the clientId. They are the query parameters \<open>client_id\<close> and \<open>redirect_uri\<close>
  of the authorization request; the endpoint and the other parameters of the request
  are those of the environment.
\<close>

definition auth_url :: "env \<Rightarrow> string \<Rightarrow> string \<Rightarrow> url" where
  "auth_url ev client_id redirect_uri =
     \<lparr>url_base = auth_endpoint ev,
      url_query = (''client_id'', client_id) # (''redirect_uri'', redirect_uri) # auth_params ev\<rparr>"

subsection \<open>google_login\<close>

definition google_login :: "settings \<Rightarrow> env \<Rightarrow> response \<times> event list" where
  "google_login st ev =
     (if google_client_id st = None \<or> google_client_secret st = None then
        (JSONResponse 500
           (json_err_content 500 ''Internal Server Error''
              ''client_id or client_secret not found to create URL for Google login.''),
         (if google_client_id st = None
          then [Log CRITICAL ''Not Found Google client id.''] else []) @
         (if google_client_secret st = None
          then [Log CRITICAL ''Not Found Google client secret.''] else []))
      else
        (RedirectResponse
           (auth_url ev (the (google_client_id st)) (url_for ev ''google_callback'')),
         [Log INFO ''Success to generate login url and redirect.'']))"

subsection \<open>google_callback\<close>

text \<open>
  The handler returns a response or raises; with it come the database as the handler
  leaves it and the effects recorded up to that point.
\<close>

type_synonym callback_result = "(exn + response) \<times> db \<times> event list"

text \<open>
  Lines 106 to 115: the user is looked up by email and created when there is none.
  The result is the user id with the database and the effects so far, or the
  exception of \<open>create_user\<close>.
\<close>

definition resolve_user ::
  "db \<Rightarrow> event list \<Rightarrow> user_info \<Rightarrow> string \<Rightarrow> string
     \<Rightarrow> (exn \<times> event list) + (int \<times> db \<times> event list)" where
  "resolve_user d tr info user_email user_email_domain =
     (case get_user_by_email (users d) user_email of
        Some u \<Rightarrow> Inr (user_id u, d, tr @ [GetUserByEmail user_email])
      | None \<Rightarrow>
          (case create_user (users d) (info_name info) user_email of
             Inl e \<Rightarrow>
               Inl (e, tr @ [GetUserByEmail user_email,
                             CreateUser (info_name info) user_email])
           | Inr (uid, us') \<Rightarrow>
               Inr (uid, d\<lparr>users := us'\<rparr>,
                    tr @ [GetUserByEmail user_email,
                          CreateUser (info_name info) user_email,
                          Log INFO (''Created new user: xxxx@'' @ user_email_domain)])))"

text \<open>Lines 117 to 123: the token is created for the user id and sent in the redirect.\<close>

definition issue_token :: "settings \<Rightarrow> env \<Rightarrow> int \<Rightarrow> db \<Rightarrow> event list \<Rightarrow> callback_result" where
  "issue_token st ev uid d tr =
     (case create_token ev (tokens d) uid of
        Inl e \<Rightarrow> (Inl e, d, tr @ [CreateToken uid])
      | Inr (tok, ts') \<Rightarrow>
          (Inr (RedirectResponse
                  \<lparr>url_base = urljoin ev (web_url st) ''callback'',
                   url_query = [(''key_token'', tok)]\<rparr>),
           d\<lparr>tokens := ts'\<rparr>,
           tr @ [CreateToken uid]))"

definition google_callback :: "settings \<Rightarrow> env \<Rightarrow> string option \<Rightarrow> db \<Rightarrow> callback_result" where
  "google_callback st ev code d =
     (case code of
        None \<Rightarrow>
          (Inr (JSONResponse 400 (json_err_content 400 ''Bad Request'' ''Google login faild.'')),
           d, [Log ERROR ''Google login failed''])
      | Some c \<Rightarrow>
          (case get_token ev c (google_client_id st) (google_client_secret st)
                  (url_for ev ''google_callback'') of
             Inl e \<Rightarrow>
               if e = FaildRetrieveAccessTokenError then
                 (Inr (JSONResponse 400
                         (json_err_content 400 ''Bad Request''
                            ''Failed to retrieve the access token for Google login.'')),
                  d, [Log ERROR ''Failed to retrieve access token for Google login.''])
               else (Inl e, d, [])
           | Inr access_token \<Rightarrow>
               (let tr = [Log INFO ''Success to retrieve access token from Google API.''] in
                case get_user_info ev access_token of
                  Inl e \<Rightarrow> (Inl e, d, tr)
                | Inr info \<Rightarrow>
                    (let user_email = info_email info in
                     case py_getitem (py_split CHR ''@'' user_email) 1 of
                       Inl e \<Rightarrow> (Inl e, d, tr)
                     | Inr user_email_domain \<Rightarrow>
                         if \<not> info_verified_email info then
                           (Inl (NotVerifiedEmailError 400
                                   ''Your google is not verified email address.''),
                            d, tr)
                         else
                           (case resolve_user d tr info user_email user_email_domain of
                              Inl (e, tr') \<Rightarrow> (Inl e, d, tr')
                            | Inr (uid, d', tr') \<Rightarrow> issue_token st ev uid d' tr')))))"

subsection \<open>Requests served one after another\<close>

text \<open>
  Each request is a call of \<open>google_callback\<close> with its own settings, collaborators and
  code, on the database the request before it left.
\<close>

fun run_callbacks :: "(settings \<times> env \<times> string option) list \<Rightarrow> db \<Rightarrow> db" where
  "run_callbacks [] d = d"
| "run_callbacks ((st, ev, code) # rs) d =
     run_callbacks rs (fst (snd (google_callback st ev code d)))"

section \<open>Concrete requests\<close>

text \<open>The settings, collaborators and tables at which the theorems are instantiated.\<close>

definition settings0 :: settings where
  "settings0 =
     \<lparr>google_client_id = Some ''client-1'', google_client_secret = Some ''secret-1'',
      web_url = ''https://app.example/'', token_secret_key = ''key'',
      token_algorithm = ''HS256''\<rparr>"

definition profile_alice :: user_info where
  "profile_alice =
     \<lparr>info_email = ''alice@example.com'', info_verified_email = True, info_name = ''Alice''\<rparr>"

definition env0 :: env where
  "env0 =
     \<lparr>url_for = (\<lambda>n. ''https://api.example/auth/google/'' @ n),
      get_token = (\<lambda>c cid sec r.
         if c = ''good-code'' then Inr ''access-1'' else Inl FaildRetrieveAccessTokenError),
      get_user_info = (\<lambda>a. Inr profile_alice),
      create_token = (\<lambda>ts uid. Inr (''signed-token'', ts @ [(uid, ''signed-token'')])),
      urljoin = (\<lambda>b r. b @ r),
      auth_endpoint = ''https://accounts.example/auth'',
      auth_params = [(''response_type'', ''code'')]\<rparr>"

definition db0 :: db where
  "db0 = \<lparr>users = [\<lparr>user_id = 1, username = ''Bob'', email = ''bob@example.com''\<rparr>],
          tokens = []\<rparr>"

definition decode0 :: jwt_decode where
  "decode0 t k algs =
     (if t = ''good'' then Inr [''user_id'' \<mapsto> 1, ''exp'' \<mapsto> 200]
      else if t = ''gone'' then Inr [''user_id'' \<mapsto> 7, ''exp'' \<mapsto> 200]
      else if t = ''anonymous'' then Inr [''exp'' \<mapsto> 200]
      else if t = ''old'' then Inl ExpiredSignatureError
      else Inl JWTError)"

definition profile_nodomain :: user_info where
  "profile_nodomain =
     \<lparr>info_email = ''nodomain'', info_verified_email = False, info_name = ''Mallory''\<rparr>"

definition profile_eve :: user_info where
  "profile_eve =
     \<lparr>info_email = ''eve@example.com'', info_verified_email = False, info_name = ''Eve''\<rparr>"

definition env_nodomain :: env where
  "env_nodomain = env0\<lparr>get_user_info := (\<lambda>a. Inr profile_nodomain)\<rparr>"

definition env_nodomain_verified :: env where
  "env_nodomain_verified =
     env0\<lparr>get_user_info := (\<lambda>a. Inr (profile_nodomain\<lparr>info_verified_email := True\<rparr>))\<rparr>"

definition env_eve :: env where
  "env_eve = env0\<lparr>get_user_info := (\<lambda>a. Inr profile_eve)\<rparr>"

definition env_profile_fetch_fails :: env where
  "env_profile_fetch_fails = env0\<lparr>get_user_info := (\<lambda>a. Inl (OtherError ''ConnectError''))\<rparr>"

definition env_create_token_fails :: env where
  "env_create_token_fails =
     env0\<lparr>create_token := (\<lambda>ts uid. Inl (OtherError ''OperationalError''))\<rparr>"

definition profile_carol :: user_info where
  "profile_carol =
     \<lparr>info_email = ''carol@example.org'', info_verified_email = True, info_name = ''Carol''\<rparr>"

definition env_carol :: env where
  "env_carol = env0\<lparr>get_user_info := (\<lambda>a. Inr profile_carol)\<rparr>"

text \<open>The database after Alice's first login on \<open>db0\<close>, and after Carol's on that one.\<close>

definition db_alice :: db where
  "db_alice =
     \<lparr>users = [\<lparr>user_id = 1, username = ''Bob'', email = ''bob@example.com''\<rparr>,
               \<lparr>user_id = 2, username = ''Alice'', email = ''alice@example.com''\<rparr>],
      tokens = [(2, ''signed-token'')]\<rparr>"

definition db_carol :: db where
  "db_carol =
     \<lparr>users = [\<lparr>user_id = 1, username = ''Bob'', email = ''bob@example.com''\<rparr>,
               \<lparr>user_id = 2, username = ''Alice'', email = ''alice@example.com''\<rparr>,
               \<lparr>user_id = 3, username = ''Carol'', email = ''carol@example.org''\<rparr>],
      tokens = [(2, ''signed-token''), (3, ''signed-token'')]\<rparr>"

definition callback_url :: url where
  "callback_url =
     \<lparr>url_base = ''https://app.example/callback'',
      url_query = [(''key_token'', ''signed-token'')]\<rparr>"

section \<open>Properties of the Python helpers\<close>

lemma rsplit_whitespace_only:
  "\<forall>c\<in>set a. py_isspace c \<Longrightarrow> rsplit_maxsplit1 a = []"
  by (simp add: rsplit_maxsplit1_def)

lemma py_split_no_sep: "sep \<notin> set s \<Longrightarrow> py_split sep s = [s]"
  by (induction s) auto

lemma py_getitem_last_fixture:
  "py_getitem (rsplit_maxsplit1 ''Bearer anonymous'') (- 1) = Inr ''anonymous''"
  by (simp add: rsplit_maxsplit1_def py_getitem_def py_isspace_def not_space_def)

lemma py_split_not_Nil: "py_split sep s \<noteq> []"
  by (induction s) (auto split: list.splits)

lemma py_split_length_sep: "sep \<in> set s \<Longrightarrow> 2 \<le> length (py_split sep s)"
proof (induction s)
  case Nil
  then show ?case by simp
next
  case (Cons c cs)
  show ?case
  proof (cases "c = sep")
    case True
    then show ?thesis
      using py_split_not_Nil [of sep cs] by (cases "py_split sep cs") auto
  next
    case False
    with Cons have "2 \<le> length (py_split sep cs)" by simp
    with False show ?thesis by (cases "py_split sep cs") auto
  qed
qed

lemma py_getitem_split_domain:
  "sep \<in> set s \<Longrightarrow> \<exists>x. py_getitem (py_split sep s) 1 = Inr x"
  using py_split_length_sep [of sep s] by (auto simp: py_getitem_def)

lemma rsplit_last:
  assumes "\<exists>c\<in>set s. \<not> py_isspace c"
  shows "py_getitem (rsplit_maxsplit1 s) (- 1) = Inr (last_run s)"
proof -
  from assms have "dropWhile py_isspace (rev s) \<noteq> []"
    by auto
  then show ?thesis
    by (simp add: rsplit_maxsplit1_def Let_def py_getitem_def last_run_def)
qed

lemma dropWhile_all_prefix: "\<forall>x\<in>set xs. P x \<Longrightarrow> dropWhile P (xs @ ys) = dropWhile P ys"
  by (induction xs) auto

lemma dropWhile_some_prefix:
  "\<exists>x\<in>set xs. \<not> P x \<Longrightarrow> dropWhile P (xs @ ys) = dropWhile P xs @ ys"
  by (induction xs) auto

lemma takeWhile_stops: "\<not> P c \<Longrightarrow> takeWhile P (xs @ c # ys) = takeWhile P xs"
  by (induction xs) auto

lemma last_run_all_space_suffix:
  assumes "\<forall>c\<in>set ys. py_isspace c"
  shows "last_run (xs @ ys) = last_run xs"
proof -
  have "dropWhile py_isspace (rev ys @ rev xs) = dropWhile py_isspace (rev xs)"
    using assms by (simp add: dropWhile_all_prefix)
  then show ?thesis by (simp add: last_run_def)
qed

lemma last_run_after_space:
  assumes "py_isspace c" and "\<exists>x\<in>set ys. \<not> py_isspace x"
  shows "last_run (xs @ c # ys) = last_run ys"
proof -
  from assms(2) have ne: "\<exists>x\<in>set (rev ys). \<not> py_isspace x" by simp
  have "dropWhile py_isspace (rev ys @ c # rev xs) = dropWhile py_isspace (rev ys) @ c # rev xs"
    using ne by (rule dropWhile_some_prefix)
  moreover have "takeWhile not_space (dropWhile py_isspace (rev ys) @ c # rev xs) =
        takeWhile not_space (dropWhile py_isspace (rev ys))"
    using assms(1) by (simp add: takeWhile_stops not_space_def)
  ultimately show ?thesis by (simp add: last_run_def)
qed

lemma last_run_token:
  assumes "\<forall>c\<in>set t. \<not> py_isspace c" and "t \<noteq> []"
  shows "last_run t = t"
proof -
  have "dropWhile py_isspace (rev t) = rev t"
    using assms by (cases "rev t") auto
  moreover have "takeWhile not_space (rev t) = rev t"
    using assms(1) by (simp add: not_space_def)
  ultimately show ?thesis by (simp only: last_run_def rev_rev_ident)
qed

lemma ws_tokens_from_all_space:
  "\<forall>c\<in>set s. py_isspace c \<Longrightarrow> ws_tokens_from [] s = []"
  by (induction s) auto

lemma ws_tokens_from_last:
  assumes "\<forall>c\<in>set cur. \<not> py_isspace c"
    and "cur \<noteq> [] \<or> (\<exists>c\<in>set s. \<not> py_isspace c)"
  shows "ws_tokens_from cur s \<noteq> [] \<and> last (ws_tokens_from cur s) = last_run (cur @ s)"
  using assms
proof (induction s arbitrary: cur)
  case Nil
  then show ?case by (simp add: last_run_token)
next
  case (Cons c cs)
  show ?case
  proof (cases "py_isspace c")
    case False
    with Cons.prems have "\<forall>x\<in>set (cur @ [c]). \<not> py_isspace x" by simp
    from Cons.IH [OF this] False show ?thesis by simp
  next
    case space: True
    show ?thesis
    proof (cases "\<exists>x\<in>set cs. \<not> py_isspace x")
      case True
      then have "ws_tokens_from [] cs \<noteq> [] \<and> last (ws_tokens_from [] cs) = last_run cs"
        using Cons.IH [of "[]"] by simp
      moreover have "last_run (cur @ c # cs) = last_run cs"
        using space True by (rule last_run_after_space)
      ultimately show ?thesis using space by simp
    next
      case False
      then have all: "\<forall>x\<in>set (c # cs). py_isspace x" using space by simp
      with Cons.prems have cur: "cur \<noteq> []" by auto
      have "ws_tokens_from [] cs = []"
        using False by (simp add: ws_tokens_from_all_space)
      moreover have "last_run (cur @ c # cs) = cur"
        using last_run_all_space_suffix [OF all, of cur] last_run_token [OF Cons.prems(1) cur]
        by simp
      ultimately show ?thesis using space cur by simp
    qed
  qed
qed

lemma last_run_Bearer:
  assumes "\<exists>c\<in>set a. \<not> py_isspace c"
  shows "last_run (''Bearer '' @ a) = last_run a"
proof -
  have "py_isspace CHR '' ''" by (simp add: py_isspace_def)
  from last_run_after_space [OF this assms, of "''Bearer''"] show ?thesis by simp
qed

section \<open>Properties of the user table\<close>

lemma find_append_Some: "find P xs = Some x \<Longrightarrow> find P (xs @ ys) = Some x"
  by (induction xs) (auto split: if_splits)

lemma find_append_None: "find P xs = None \<Longrightarrow> find P (xs @ ys) = find P ys"
  by (induction xs) (auto split: if_splits)

lemma get_user_by_email_created:
  "get_user_by_email us e = None \<Longrightarrow>
   get_user_by_email (us @ [\<lparr>user_id = i, username = n, email = e\<rparr>]) e =
     Some \<lparr>user_id = i, username = n, email = e\<rparr>"
  by (simp add: get_user_by_email_def find_append_None)

lemma resolve_user_users:
  "resolve_user d tr info e domain = Inr (uid, d', tr') \<Longrightarrow>
   tokens d' = tokens d \<and> (\<exists>ys. users d' = users d @ ys)"
  by (auto simp: resolve_user_def create_user_def split: option.splits if_splits)

lemma issue_token_users: "users (fst (snd (issue_token st ev uid d tr))) = users d"
  by (simp add: issue_token_def split: sum.splits prod.splits)

text \<open>No request removes or changes a row of the user table.\<close>

lemma google_callback_users_grow:
  "\<exists>ys. users (fst (snd (google_callback st ev code d))) = users d @ ys"
  by (auto simp: google_callback_def Let_def issue_token_users
      split: option.splits sum.splits prod.splits dest: resolve_user_users)

lemma google_callback_keeps_lookup:
  assumes "get_user_by_email (users d) e = Some u"
  shows "get_user_by_email (users (fst (snd (google_callback st ev code d)))) e = Some u"
proof -
  obtain ys where "users (fst (snd (google_callback st ev code d))) = users d @ ys"
    using google_callback_users_grow by blast
  with assms show ?thesis
    by (simp add: get_user_by_email_def find_append_Some)
qed

lemma run_callbacks_keeps_lookup:
  "get_user_by_email (users d) e = Some u \<Longrightarrow>
   get_user_by_email (users (run_callbacks rs d)) e = Some u"
  by (induction rs d rule: run_callbacks.induct) (simp_all add: google_callback_keeps_lookup)

text \<open>
  What a login that ends in the redirect has done: with a row for the email it wrote no
  user, without one it appended the row of the profile under a new id.
\<close>

lemma successful_login_shape:
  assumes "get_token ev c (google_client_id st) (google_client_secret st)
             (url_for ev ''google_callback'') = Inr access_token"
    and "get_user_info ev access_token = Inr info"
    and "google_callback st ev (Some c) d = (Inr (RedirectResponse u), d', tr)"
  shows "case get_user_by_email (users d) (info_email info) of
           Some usr \<Rightarrow>
             users d' = users d \<and>
             tr = [Log INFO ''Success to retrieve access token from Google API.'',
                   GetUserByEmail (info_email info), CreateToken (user_id usr)]
         | None \<Rightarrow>
             users d' = users d @ [\<lparr>user_id = fresh_id (users d), username = info_name info,
                                    email = info_email info\<rparr>] \<and>
             (\<exists>domain.
                tr = [Log INFO ''Success to retrieve access token from Google API.'',
                      GetUserByEmail (info_email info),
                      CreateUser (info_name info) (info_email info),
                      Log INFO (''Created new user: xxxx@'' @ domain),
                      CreateToken (fresh_id (users d))])"
  using assms
  by (auto simp: google_callback_def Let_def resolve_user_def create_user_def issue_token_def
      split: option.splits sum.splits prod.splits if_splits)

section \<open>The concrete requests, evaluated\<close>

lemmas eval_defs = google_callback_def resolve_user_def issue_token_def create_user_def
  get_user_by_email_def fresh_id_def py_getitem_def Let_def settings0_def env0_def db0_def
  profile_alice_def

lemma first_login_fixture:
  "google_callback settings0 env0 (Some ''good-code'') db0 =
     (Inr (RedirectResponse callback_url), db_alice,
      [Log INFO ''Success to retrieve access token from Google API.'',
       GetUserByEmail ''alice@example.com'', CreateUser ''Alice'' ''alice@example.com'',
       Log INFO ''Created new user: xxxx@example.com'', CreateToken 2])"
  by (simp add: eval_defs db_alice_def callback_url_def)

lemma between_fixture:
  "run_callbacks [(settings0, env_carol, Some ''good-code''),
                  (settings0, env_eve, Some ''good-code'')] db_alice = db_carol"
  by (simp add: eval_defs db_alice_def db_carol_def env_carol_def env_eve_def
        profile_carol_def profile_eve_def)

lemma second_login_fixture:
  "google_callback settings0 env0 (Some ''good-code'') db_carol =
     (Inr (RedirectResponse callback_url),
      db_carol\<lparr>tokens := tokens db_carol @ [(2, ''signed-token'')]\<rparr>,
      [Log INFO ''Success to retrieve access token from Google API.'',
       GetUserByEmail ''alice@example.com'', CreateToken 2])"
  by (simp add: eval_defs db_carol_def callback_url_def)

lemma bearer_fixture:
  "py_getitem (rsplit_maxsplit1 ''Bearer old'') (- 1) = Inr ''old''"
  "py_getitem (rsplit_maxsplit1 ''Bearer forged'') (- 1) = Inr ''forged''"
  "py_getitem (rsplit_maxsplit1 ''Bearer gone'') (- 1) = Inr ''gone''"
  "py_getitem (rsplit_maxsplit1 ''Bearer good'') (- 1) = Inr ''good''"
  by (simp_all add: rsplit_maxsplit1_def py_getitem_def py_isspace_def not_space_def)

section \<open>The bearer authenticator: unhandled exceptions\<close>

text \<open>
  C8. When the Authorization header is present and every character of it is whitespace
  (the empty string included), \<open>authorization.rsplit(maxsplit=1)\<close> is the empty list,
  the index \<open>[-1]\<close> raises IndexError, no handler catches it, and so the call ends in
  none of the HTTPException errors.
\<close>

theorem whitespace_header_raises_IndexError:
  assumes "\<forall>c\<in>set a. py_isspace c"
  shows "is_authenticated st decode us (Some a) = Inl IndexError \<and>
         (\<forall>code detail hs.
            is_authenticated st decode us (Some a) \<noteq> Inl (HTTPException code detail hs))"
  using assms by (simp add: is_authenticated_def rsplit_whitespace_only py_getitem_def)

theorem whitespace_header_raises_IndexError_witness:
  "list_all py_isspace ''  '' \<and>
   is_authenticated settings0 decode0 (users db0) (Some ''  '') = Inl IndexError \<and>
   is_authenticated settings0 decode0 (users db0) (Some []) = Inl IndexError"
  using whitespace_header_raises_IndexError [of "''  ''" settings0 decode0 "users db0"]
    whitespace_header_raises_IndexError [of "[]" settings0 decode0 "users db0"]
  by (simp add: py_isspace_def)

text \<open>
  C10. When the token taken from the header passes \<open>jwt.decode\<close> and the decoded payload
  has no key \<open>user_id\<close>, the subscript \<open>payload["user_id"]\<close> raises KeyError, which is
  outside the \<open>try\<close> block: the call ends in KeyError, not in the 401 error.
\<close>

theorem missing_user_id_raises_KeyError:
  assumes "py_getitem (rsplit_maxsplit1 a) (- 1) = Inr t"
    and "decode t (token_secret_key st) [token_algorithm st] = Inr p"
    and "p ''user_id'' = None"
  shows "is_authenticated st decode us (Some a) = Inl (KeyError ''user_id'') \<and>
         (\<forall>detail hs.
            is_authenticated st decode us (Some a) \<noteq> Inl (HTTPException 401 detail hs))"
  using assms by (simp add: is_authenticated_def dict_getitem_def)

theorem missing_user_id_raises_KeyError_witness:
  "is_authenticated settings0 decode0 (users db0) (Some ''Bearer anonymous'') =
     Inl (KeyError ''user_id'')"
proof -
  have "decode0 ''anonymous'' (token_secret_key settings0) [token_algorithm settings0] =
          Inr [''exp'' \<mapsto> 200]"
    by (simp add: decode0_def)
  moreover have "[''exp'' \<mapsto> (200::int)] ''user_id'' = None"
    by simp
  ultimately show ?thesis
    using missing_user_id_raises_KeyError [OF py_getitem_last_fixture]
    by blast
qed

section \<open>The login callback: unhandled exceptions\<close>

text \<open>
  C9. When the code was exchanged and the profile fetched, and the email of the profile
  has no \<open>@\<close>, \<open>user_email.split("@")\<close> is a list of one item and the index \<open>[1]\<close>
  raises IndexError. This is line 98, before the test of \<open>verified_email\<close> at line 100,
  so it happens whatever the value of the flag; no table is written.
\<close>

theorem email_without_at_raises_IndexError:
  assumes "get_token ev c (google_client_id st) (google_client_secret st)
             (url_for ev ''google_callback'') = Inr access_token"
    and "get_user_info ev access_token = Inr info"
    and "CHR ''@'' \<notin> set (info_email info)"
  shows "google_callback st ev (Some c) d =
           (Inl IndexError, d,
            [Log INFO ''Success to retrieve access token from Google API.''])"
  using assms by (simp add: google_callback_def py_split_no_sep py_getitem_def)

theorem email_without_at_raises_IndexError_witness:
  "google_callback settings0 env_nodomain (Some ''good-code'') db0 =
     (Inl IndexError, db0, [Log INFO ''Success to retrieve access token from Google API.'']) \<and>
   google_callback settings0 env_nodomain_verified (Some ''good-code'') db0 =
     (Inl IndexError, db0, [Log INFO ''Success to retrieve access token from Google API.''])"
proof -
  have "google_callback settings0 env_nodomain (Some ''good-code'') db0 =
     (Inl IndexError, db0, [Log INFO ''Success to retrieve access token from Google API.''])"
    by (rule email_without_at_raises_IndexError [where access_token = "''access-1''"
            and info = profile_nodomain])
       (simp_all add: env_nodomain_def env0_def profile_nodomain_def)
  moreover
  have "google_callback settings0 env_nodomain_verified (Some ''good-code'') db0 =
     (Inl IndexError, db0, [Log INFO ''Success to retrieve access token from Google API.''])"
    by (rule email_without_at_raises_IndexError [where access_token = "''access-1''"
            and info = "profile_nodomain\<lparr>info_verified_email := True\<rparr>"])
       (simp_all add: env_nodomain_verified_def env0_def profile_nodomain_def)
  ultimately show ?thesis by simp
qed

section \<open>The login callback: failures of the collaborators\<close>

text \<open>
  C1. The call \<open>google.get_user_info(access_token)\<close> at line 96 is in no \<open>try\<close> block,
  unlike \<open>google.get_token\<close> at lines 77 to 94. At a request whose code is exchanged
  and whose profile fetch raises a connection error, the handler ends in that very
  exception: no structured error is returned.
\<close>

theorem profile_fetch_failure_propagates:
  "google_callback settings0 env_profile_fetch_fails (Some ''good-code'') db0 =
     (Inl (OtherError ''ConnectError''), db0,
      [Log INFO ''Success to retrieve access token from Google API.''])"
  by (simp add: google_callback_def env_profile_fetch_fails_def env0_def settings0_def)

text \<open>
  C2, as amended. At a request that reaches line 117 with the user id resolved, the
  outcome of \<open>token_dao.create_token\<close> decides the response: when it returns a token, the
  handler returns the redirect to \<open>urljoin(web_url, "callback")\<close> with that token as
  \<open>key_token\<close>; when it raises, the handler ends in the same exception, with no
  redirect and nothing logged after the call.
\<close>

theorem create_token_outcome_decides_response:
  assumes "get_token ev c (google_client_id st) (google_client_secret st)
             (url_for ev ''google_callback'') = Inr access_token"
    and "get_user_info ev access_token = Inr info"
    and "py_getitem (py_split CHR ''@'' (info_email info)) 1 = Inr domain"
    and "info_verified_email info"
    and "resolve_user d [Log INFO ''Success to retrieve access token from Google API.'']
           info (info_email info) domain = Inr (uid, d', tr')"
  shows "(\<forall>tok ts'. create_token ev (tokens d') uid = Inr (tok, ts') \<longrightarrow>
            google_callback st ev (Some c) d =
              (Inr (RedirectResponse
                      \<lparr>url_base = urljoin ev (web_url st) ''callback'',
                       url_query = [(''key_token'', tok)]\<rparr>),
               d'\<lparr>tokens := ts'\<rparr>, tr' @ [CreateToken uid])) \<and>
         (\<forall>e. create_token ev (tokens d') uid = Inl e \<longrightarrow>
            google_callback st ev (Some c) d = (Inl e, d', tr' @ [CreateToken uid]))"
  using assms by (simp add: google_callback_def issue_token_def Let_def)

theorem create_token_outcome_decides_response_witness:
  "fst (google_callback settings0 env0 (Some ''good-code'') db0) =
     Inr (RedirectResponse callback_url) \<and>
   fst (google_callback settings0 env_create_token_fails (Some ''good-code'') db0) =
     Inl (OtherError ''OperationalError'')"
proof -
  let ?tr = "[Log INFO ''Success to retrieve access token from Google API.'',
       GetUserByEmail ''alice@example.com'', CreateUser ''Alice'' ''alice@example.com'',
       Log INFO ''Created new user: xxxx@example.com'']"
  let ?d = "db_alice\<lparr>tokens := []\<rparr>"
  have tok: "get_token env0 ''good-code'' (google_client_id settings0)
               (google_client_secret settings0) (url_for env0 ''google_callback'') =
             Inr ''access-1''"
    "get_token env_create_token_fails ''good-code'' (google_client_id settings0)
               (google_client_secret settings0)
               (url_for env_create_token_fails ''google_callback'') =
             Inr ''access-1''"
    by (simp_all add: env0_def env_create_token_fails_def)
  have info: "get_user_info env0 ''access-1'' = Inr profile_alice"
    "get_user_info env_create_token_fails ''access-1'' = Inr profile_alice"
    by (simp_all add: env0_def env_create_token_fails_def)
  have dom: "py_getitem (py_split CHR ''@'' (info_email profile_alice)) 1 = Inr ''example.com''"
    by (simp add: profile_alice_def py_getitem_def)
  have ver: "info_verified_email profile_alice"
    by (simp add: profile_alice_def)
  have res: "resolve_user db0 [Log INFO ''Success to retrieve access token from Google API.'']
           profile_alice (info_email profile_alice) ''example.com'' = Inr (2, ?d, ?tr)"
    by (simp add: eval_defs db_alice_def)
  have ok: "create_token env0 (tokens ?d) 2 = Inr (''signed-token'', [(2, ''signed-token'')])"
    by (simp add: env0_def)
  have bad: "create_token env_create_token_fails (tokens ?d) 2 =
               Inl (OtherError ''OperationalError'')"
    by (simp add: env_create_token_fails_def)
  from create_token_outcome_decides_response [OF tok(1) info(1) dom ver res] ok
  have "fst (google_callback settings0 env0 (Some ''good-code'') db0) =
     Inr (RedirectResponse callback_url)"
    by (simp add: callback_url_def env0_def settings0_def)
  moreover
  from create_token_outcome_decides_response [OF tok(2) info(2) dom ver res] bad
  have "fst (google_callback settings0 env_create_token_fails (Some ''good-code'') db0) =
     Inl (OtherError ''OperationalError'')"
    by simp
  ultimately show ?thesis by simp
qed

text \<open>
  The claim as written fails at a request that reaches line 117 and whose
  \<open>create_token\<close> raises: the handler ends in that exception, the client gets no
  redirect, and no log line follows the call.
\<close>

theorem create_token_failure_counterexample:
  "create_token env_create_token_fails (tokens (db_alice\<lparr>tokens := []\<rparr>)) 2 =
     Inl (OtherError ''OperationalError'') \<and>
   google_callback settings0 env_create_token_fails (Some ''good-code'') db0 =
     (Inl (OtherError ''OperationalError''), db_alice\<lparr>tokens := []\<rparr>,
      [Log INFO ''Success to retrieve access token from Google API.'',
       GetUserByEmail ''alice@example.com'', CreateUser ''Alice'' ''alice@example.com'',
       Log INFO ''Created new user: xxxx@example.com'', CreateToken 2])"
  by (simp add: eval_defs db_alice_def env_create_token_fails_def)

section \<open>The login callback: the unverified email\<close>

text \<open>
  On the path of an unverified profile the handler calls no DAO method: whatever the
  email, the database is the one it was given and the only effect is the log line of
  the token exchange.
\<close>

lemma unverified_email_no_store_access:
  assumes "get_token ev c (google_client_id st) (google_client_secret st)
             (url_for ev ''google_callback'') = Inr access_token"
    and "get_user_info ev access_token = Inr info"
    and "\<not> info_verified_email info"
  shows "snd (google_callback st ev (Some c) d) =
           (d, [Log INFO ''Success to retrieve access token from Google API.''])"
  using assms by (simp add: google_callback_def Let_def split: sum.splits)

text \<open>
  C4. The docstring of \<open>google_callback\<close> says
  \<open>:raises NotVerifiedEmailError: If not verified email\<close>, and lines 100 to 104 raise
  it with status 400. The domain of the email, used only in the log line 115, is taken
  at line 98, before the test. At a request whose code is exchanged and whose fetched
  profile is not verified and has the email \<open>nodomain\<close>, the handler therefore ends in
  IndexError and not in NotVerifiedEmailError; the database is unchanged and no DAO
  method is called.
\<close>

theorem unverified_email_without_at_raises_IndexError:
  "get_user_info env_nodomain ''access-1'' = Inr profile_nodomain \<and>
   \<not> info_verified_email profile_nodomain \<and>
   google_callback settings0 env_nodomain (Some ''good-code'') db0 =
     (Inl IndexError, db0,
      [Log INFO ''Success to retrieve access token from Google API.'']) \<and>
   fst (google_callback settings0 env_nodomain (Some ''good-code'') db0) \<noteq>
     Inl (NotVerifiedEmailError 400 ''Your google is not verified email address.'')"
  by (simp add: google_callback_def env_nodomain_def env0_def profile_nodomain_def
        settings0_def py_getitem_def)

section \<open>The login callback: one user per email\<close>

text \<open>
  C3. Take a login that ends in the redirect for a profile whose email has no row in
  the user table, any requests served after it, and then a second login that ends in
  the redirect for a profile with the same email. The first login creates the user and
  issues its token for the new id; the second creates no user, leaves the user table
  as it found it, and issues its token for the same id, which is the id of the row
  found under the email.
\<close>

theorem second_login_resolves_same_user:
  assumes unseen: "get_user_by_email (users d0) e = None"
    and tok1: "get_token ev1 c1 (google_client_id st1) (google_client_secret st1)
             (url_for ev1 ''google_callback'') = Inr at1"
    and info1: "get_user_info ev1 at1 = Inr info1"
    and email1: "info_email info1 = e"
    and first: "google_callback st1 ev1 (Some c1) d0 = (Inr (RedirectResponse u1), d1, tr1)"
    and tok2: "get_token ev2 c2 (google_client_id st2) (google_client_secret st2)
             (url_for ev2 ''google_callback'') = Inr at2"
    and info2: "get_user_info ev2 at2 = Inr info2"
    and email2: "info_email info2 = e"
    and second: "google_callback st2 ev2 (Some c2) (run_callbacks between d1) =
                   (Inr (RedirectResponse u2), d2, tr2)"
  shows "\<exists>uid domain.
           tr1 = [Log INFO ''Success to retrieve access token from Google API.'',
                  GetUserByEmail e, CreateUser (info_name info1) e,
                  Log INFO (''Created new user: xxxx@'' @ domain), CreateToken uid] \<and>
           tr2 = [Log INFO ''Success to retrieve access token from Google API.'',
                  GetUserByEmail e, CreateToken uid] \<and>
           users d2 = users (run_callbacks between d1) \<and>
           get_user_by_email (users d2) e =
             Some \<lparr>user_id = uid, username = info_name info1, email = e\<rparr>"
proof -
  let ?new = "\<lparr>user_id = fresh_id (users d0), username = info_name info1, email = e\<rparr>"
  from successful_login_shape [OF tok1 info1 first] unseen email1
  obtain domain where
    d1: "users d1 = users d0 @ [?new]" and
    tr1: "tr1 = [Log INFO ''Success to retrieve access token from Google API.'',
                  GetUserByEmail e, CreateUser (info_name info1) e,
                  Log INFO (''Created new user: xxxx@'' @ domain),
                  CreateToken (fresh_id (users d0))]"
    by auto
  have "get_user_by_email (users d1) e = Some ?new"
    using unseen d1 by (simp add: get_user_by_email_created)
  then have look: "get_user_by_email (users (run_callbacks between d1)) e = Some ?new"
    by (rule run_callbacks_keeps_lookup)
  from successful_login_shape [OF tok2 info2 second] look email2
  have d2: "users d2 = users (run_callbacks between d1)" and
    tr2: "tr2 = [Log INFO ''Success to retrieve access token from Google API.'',
                  GetUserByEmail e, CreateToken (fresh_id (users d0))]"
    by auto
  from tr1 tr2 d2 look show ?thesis by simp
qed

theorem second_login_resolves_same_user_witness:
  "snd (snd (google_callback settings0 env0 (Some ''good-code'')
          (run_callbacks [(settings0, env_carol, Some ''good-code''),
                          (settings0, env_eve, Some ''good-code'')] db_alice))) =
     [Log INFO ''Success to retrieve access token from Google API.'',
      GetUserByEmail ''alice@example.com'', CreateToken 2] \<and>
   get_user_by_email (users db_carol) ''alice@example.com'' =
     Some \<lparr>user_id = 2, username = ''Alice'', email = ''alice@example.com''\<rparr>"
proof -
  have unseen: "get_user_by_email (users db0) ''alice@example.com'' = None"
    by (simp add: get_user_by_email_def db0_def)
  have tok: "get_token env0 ''good-code'' (google_client_id settings0)
               (google_client_secret settings0) (url_for env0 ''google_callback'') =
             Inr ''access-1''"
    by (simp add: env0_def)
  have info: "get_user_info env0 ''access-1'' = Inr profile_alice"
    by (simp add: env0_def)
  have email: "info_email profile_alice = ''alice@example.com''"
    by (simp add: profile_alice_def)
  have second: "google_callback settings0 env0 (Some ''good-code'')
       (run_callbacks [(settings0, env_carol, Some ''good-code''),
                       (settings0, env_eve, Some ''good-code'')] db_alice) =
     (Inr (RedirectResponse callback_url),
      db_carol\<lparr>tokens := tokens db_carol @ [(2, ''signed-token'')]\<rparr>,
      [Log INFO ''Success to retrieve access token from Google API.'',
       GetUserByEmail ''alice@example.com'', CreateToken 2])"
    by (simp only: between_fixture second_login_fixture)
  from second_login_resolves_same_user
         [OF unseen tok info email first_login_fixture tok info email second]
  obtain uid where
    "CreateToken (2::int) = CreateToken uid"
    "get_user_by_email
       (users (db_carol\<lparr>tokens := tokens db_carol @ [(2, ''signed-token'')]\<rparr>))
       ''alice@example.com'' =
     Some \<lparr>user_id = uid, username = info_name profile_alice, email = ''alice@example.com''\<rparr>"
    by auto
  then show ?thesis
    by (simp add: second profile_alice_def del: run_callbacks.simps)
qed

section \<open>The bearer authenticator: the documented outcomes\<close>

text \<open>
  C5. Without an Authorization header the call ends in HTTPException 400. With a header
  whose last item is the token \<open>t\<close>: when \<open>jwt.decode\<close> raises ExpiredSignatureError the
  call ends in HTTPException 401 "Token has expired."; when it raises any other
  JWTError, in HTTPException 401 "Invalid token."; when it returns a payload whose
  \<open>user_id\<close> has no row in the user table, in HTTPException 404; and when the row
  exists the call returns that user. The handler only reads the user table: it
  returns no table, and writes none.
\<close>

theorem is_authenticated_outcomes:
  "is_authenticated st decode us None =
     Inl (HTTPException 400 ''Authorization header is missing.''
            [(''WWW-Authenticate'', ''Bearer error=\"invalid_request\"'')]) \<and>
   (py_getitem (rsplit_maxsplit1 a) (- 1) = Inr t \<longrightarrow>
      (decode t (token_secret_key st) [token_algorithm st] = Inl ExpiredSignatureError \<longrightarrow>
         is_authenticated st decode us (Some a) =
           Inl (HTTPException 401 ''Token has expired.''
                  [(''WWW-Authenticate'', ''Bearer error=\"invalid_token\"'')])) \<and>
      (decode t (token_secret_key st) [token_algorithm st] = Inl e \<and>
         e \<noteq> ExpiredSignatureError \<and> isinstance_JWTError e \<longrightarrow>
         is_authenticated st decode us (Some a) =
           Inl (HTTPException 401 ''Invalid token.''
                  [(''WWW-Authenticate'', ''Bearer error=\"invalid_token\"'')])) \<and>
      (decode t (token_secret_key st) [token_algorithm st] = Inr p \<and>
         p ''user_id'' = Some uid \<longrightarrow>
         (get_user us uid = None \<longrightarrow>
            is_authenticated st decode us (Some a) =
              Inl (HTTPException 404 ''Not found user.''
                     [(''WWW-Authenticate'', ''Bearer error=\"not_found_user\"'')])) \<and>
         (get_user us uid = Some u \<longrightarrow>
            is_authenticated st decode us (Some a) = Inr u)))"
  by (simp add: is_authenticated_def dict_getitem_def)

theorem is_authenticated_outcomes_witness:
  "is_authenticated settings0 decode0 (users db0) (Some ''Bearer old'') =
     Inl (HTTPException 401 ''Token has expired.''
            [(''WWW-Authenticate'', ''Bearer error=\"invalid_token\"'')]) \<and>
   is_authenticated settings0 decode0 (users db0) (Some ''Bearer forged'') =
     Inl (HTTPException 401 ''Invalid token.''
            [(''WWW-Authenticate'', ''Bearer error=\"invalid_token\"'')]) \<and>
   is_authenticated settings0 decode0 (users db0) (Some ''Bearer gone'') =
     Inl (HTTPException 404 ''Not found user.''
            [(''WWW-Authenticate'', ''Bearer error=\"not_found_user\"'')]) \<and>
   is_authenticated settings0 decode0 (users db0) (Some ''Bearer good'') =
     Inr \<lparr>user_id = 1, username = ''Bob'', email = ''bob@example.com''\<rparr>"
proof -
  have "is_authenticated settings0 decode0 (users db0) (Some ''Bearer old'') =
     Inl (HTTPException 401 ''Token has expired.''
            [(''WWW-Authenticate'', ''Bearer error=\"invalid_token\"'')])"
    using is_authenticated_outcomes [of settings0 decode0 "users db0" "''Bearer old''" "''old''"] bearer_fixture(1)
    by (simp add: decode0_def)
  moreover
  have "is_authenticated settings0 decode0 (users db0) (Some ''Bearer forged'') =
     Inl (HTTPException 401 ''Invalid token.''
            [(''WWW-Authenticate'', ''Bearer error=\"invalid_token\"'')])"
    using is_authenticated_outcomes [of settings0 decode0 "users db0" "''Bearer forged''" "''forged''" JWTError]
      bearer_fixture(2)
    by (simp add: decode0_def isinstance_JWTError_def)
  moreover
  have "is_authenticated settings0 decode0 (users db0) (Some ''Bearer gone'') =
     Inl (HTTPException 404 ''Not found user.''
            [(''WWW-Authenticate'', ''Bearer error=\"not_found_user\"'')])"
    using is_authenticated_outcomes [of settings0 decode0 "users db0" "''Bearer gone''" "''gone''" _
                 "[''user_id'' \<mapsto> 7, ''exp'' \<mapsto> 200]" 7]
      bearer_fixture(3)
    by (simp add: decode0_def get_user_def db0_def)
  moreover
  have "is_authenticated settings0 decode0 (users db0) (Some ''Bearer good'') =
     Inr \<lparr>user_id = 1, username = ''Bob'', email = ''bob@example.com''\<rparr>"
    using is_authenticated_outcomes [of settings0 decode0 "users db0" "''Bearer good''" "''good''" _
                 "[''user_id'' \<mapsto> 1, ''exp'' \<mapsto> 200]" 1
                 "\<lparr>user_id = 1, username = ''Bob'', email = ''bob@example.com''\<rparr>"]
      bearer_fixture(4)
    by (simp add: decode0_def get_user_def db0_def)
  ultimately show ?thesis by simp
qed

text \<open>
  C6. For a header with at least one character that is not whitespace, the credential
  that \<open>authorization.rsplit(maxsplit=1)[-1]\<close> extracts is the last whitespace-delimited
  token of the header, and it is this token that the handler passes to \<open>jwt.decode\<close>:
  the outcome of the call is the outcome of decoding the last token and resolving its
  \<open>user_id\<close>. The header with \<open>Bearer\<close> and a space before it yields the same
  credential, and so the same outcome of the whole call; a header that is one token
  without whitespace yields that token itself.
\<close>

theorem last_token_extraction:
  assumes "\<exists>c\<in>set a. \<not> py_isspace c"
  shows "ws_tokens a \<noteq> [] \<and>
         py_getitem (rsplit_maxsplit1 a) (- 1) = Inr (last (ws_tokens a)) \<and>
         is_authenticated st decode us (Some a) =
           (case decode (last (ws_tokens a)) (token_secret_key st) [token_algorithm st] of
              Inl e \<Rightarrow>
                if e = ExpiredSignatureError then
                  Inl (HTTPException 401 ''Token has expired.''
                         [(''WWW-Authenticate'', ''Bearer error=\"invalid_token\"'')])
                else if isinstance_JWTError e then
                  Inl (HTTPException 401 ''Invalid token.''
                         [(''WWW-Authenticate'', ''Bearer error=\"invalid_token\"'')])
                else Inl e
            | Inr payload \<Rightarrow>
                (case payload ''user_id'' of
                   None \<Rightarrow> Inl (KeyError ''user_id'')
                 | Some uid \<Rightarrow>
                     (case get_user us uid of
                        Some u \<Rightarrow> Inr u
                      | None \<Rightarrow>
                          Inl (HTTPException 404 ''Not found user.''
                                 [(''WWW-Authenticate'',
                                   ''Bearer error=\"not_found_user\"'')])))) \<and>
         py_getitem (rsplit_maxsplit1 (''Bearer '' @ a)) (- 1) = Inr (last (ws_tokens a)) \<and>
         is_authenticated st decode us (Some (''Bearer '' @ a)) =
           is_authenticated st decode us (Some a) \<and>
         (a \<noteq> [] \<and> (\<forall>c\<in>set a. \<not> py_isspace c) \<longrightarrow> last (ws_tokens a) = a)"
proof -
  have tok: "ws_tokens a \<noteq> [] \<and> last (ws_tokens a) = last_run a"
    using ws_tokens_from_last [of "[]" a] assms by (simp add: ws_tokens_def)
  have bare: "py_getitem (rsplit_maxsplit1 a) (- 1) = Inr (last_run a)"
    using assms by (rule rsplit_last)
  have "\<exists>c\<in>set (''Bearer '' @ a). \<not> py_isspace c"
    using assms by auto
  then have "py_getitem (rsplit_maxsplit1 (''Bearer '' @ a)) (- 1) = Inr (last_run (''Bearer '' @ a))"
    by (rule rsplit_last)
  then have pre: "py_getitem (rsplit_maxsplit1 (''Bearer '' @ a)) (- 1) = Inr (last_run a)"
    using assms by (simp only: last_run_Bearer)
  have same: "is_authenticated st decode us (Some (''Bearer '' @ a)) =
           is_authenticated st decode us (Some a)"
    unfolding is_authenticated_def option.case pre bare ..
  have link: "is_authenticated st decode us (Some a) =
           (case decode (last_run a) (token_secret_key st) [token_algorithm st] of
              Inl e \<Rightarrow>
                if e = ExpiredSignatureError then
                  Inl (HTTPException 401 ''Token has expired.''
                         [(''WWW-Authenticate'', ''Bearer error=\"invalid_token\"'')])
                else if isinstance_JWTError e then
                  Inl (HTTPException 401 ''Invalid token.''
                         [(''WWW-Authenticate'', ''Bearer error=\"invalid_token\"'')])
                else Inl e
            | Inr payload \<Rightarrow>
                (case payload ''user_id'' of
                   None \<Rightarrow> Inl (KeyError ''user_id'')
                 | Some uid \<Rightarrow>
                     (case get_user us uid of
                        Some u \<Rightarrow> Inr u
                      | None \<Rightarrow>
                          Inl (HTTPException 404 ''Not found user.''
                                 [(''WWW-Authenticate'',
                                   ''Bearer error=\"not_found_user\"'')]))))"
    by (simp add: is_authenticated_def bare dict_getitem_def
          split: sum.splits option.splits)
  have "last_run a = a" if "a \<noteq> []" "\<forall>c\<in>set a. \<not> py_isspace c"
    using that by (simp add: last_run_token)
  with tok bare pre same link show ?thesis by simp
qed

theorem last_token_extraction_witness:
  "is_authenticated settings0 decode0 (users db0) (Some ''good'') =
     Inr \<lparr>user_id = 1, username = ''Bob'', email = ''bob@example.com''\<rparr> \<and>
   is_authenticated settings0 decode0 (users db0) (Some ''Bearer good'') =
     Inr \<lparr>user_id = 1, username = ''Bob'', email = ''bob@example.com''\<rparr> \<and>
   is_authenticated settings0 decode0 (users db0) (Some ''Bearer forged'') =
     Inl (HTTPException 401 ''Invalid token.''
            [(''WWW-Authenticate'', ''Bearer error=\"invalid_token\"'')]) \<and>
   py_getitem (rsplit_maxsplit1 ''Bearer good'') (- 1) = Inr ''good''"
proof -
  have ne: "\<exists>c\<in>set ''good''. \<not> py_isspace c" "\<exists>c\<in>set ''forged''. \<not> py_isspace c"
    by (simp_all add: py_isspace_def)
  have tok: "''good'' \<noteq> [] \<and> (\<forall>c\<in>set ''good''. \<not> py_isspace c)"
    "''forged'' \<noteq> [] \<and> (\<forall>c\<in>set ''forged''. \<not> py_isspace c)"
    by (simp_all add: py_isspace_def)
  from last_token_extraction [OF ne(1), of settings0 decode0 "users db0"] tok(1)
  have good: "is_authenticated settings0 decode0 (users db0) (Some ''good'') =
       Inr \<lparr>user_id = 1, username = ''Bob'', email = ''bob@example.com''\<rparr>"
    "is_authenticated settings0 decode0 (users db0) (Some ''Bearer good'') =
       is_authenticated settings0 decode0 (users db0) (Some ''good'')"
    "py_getitem (rsplit_maxsplit1 ''Bearer good'') (- 1) = Inr ''good''"
    by (simp_all add: decode0_def get_user_def db0_def)
  from last_token_extraction [OF ne(2), of settings0 decode0 "users db0"] tok(2)
  have "is_authenticated settings0 decode0 (users db0) (Some ''Bearer forged'') =
     Inl (HTTPException 401 ''Invalid token.''
            [(''WWW-Authenticate'', ''Bearer error=\"invalid_token\"'')])"
    by (simp add: decode0_def isinstance_JWTError_def)
  with good show ?thesis by simp
qed

section \<open>The login redirect\<close>

text \<open>
  C7. When the client id or the client secret is not configured, \<open>google_login\<close>
  returns the JSON response with status 500 whose body has the fields status 500,
  error and message. When both are configured it returns the redirect to the
  authorization URL built from the configured client id and the URL of the callback
  route, and that URL carries both among its query parameters.
\<close>

theorem google_login_outcomes:
  "(google_client_id st = None \<or> google_client_secret st = None \<longrightarrow>
      fst (google_login st ev) =
        JSONResponse 500
          \<lparr>err_status = 500, err_error = ''Internal Server Error'',
           err_message =
             ''client_id or client_secret not found to create URL for Google login.''\<rparr>) \<and>
   (google_client_id st = Some cid \<and> google_client_secret st = Some secret \<longrightarrow>
      fst (google_login st ev) =
        RedirectResponse (auth_url ev cid (url_for ev ''google_callback'')) \<and>
      (''client_id'', cid) \<in> set (url_query (auth_url ev cid (url_for ev ''google_callback''))) \<and>
      (''redirect_uri'', url_for ev ''google_callback'')
         \<in> set (url_query (auth_url ev cid (url_for ev ''google_callback''))))"
  by (simp add: google_login_def json_err_content_def auth_url_def)

theorem google_login_outcomes_witness:
  "fst (google_login settings0 env0) =
     RedirectResponse
       \<lparr>url_base = ''https://accounts.example/auth'',
        url_query = [(''client_id'', ''client-1''),
                     (''redirect_uri'', ''https://api.example/auth/google/google_callback''),
                     (''response_type'', ''code'')]\<rparr> \<and>
   fst (google_login (settings0\<lparr>google_client_secret := None\<rparr>) env0) =
     JSONResponse 500
          \<lparr>err_status = 500, err_error = ''Internal Server Error'',
           err_message =
             ''client_id or client_secret not found to create URL for Google login.''\<rparr>"
  using google_login_outcomes [of settings0 env0 "''client-1''" "''secret-1''"]
    google_login_outcomes [of "settings0\<lparr>google_client_secret := None\<rparr>" env0]
  by (simp add: settings0_def env0_def auth_url_def)

end
